theory Spec2Isabelle
  imports Main
begin

section \<open>Strings and values of the Python program\<close>

text \<open>
  A Python \<open>str\<close> is a sequence of Unicode code points and \<open>len\<close> counts code points, so a
  string is a list of natural numbers (the code points). String constants of the source are
  written as code-point lists, with the text in a comment.
\<close>

type_synonym pystr = "nat list"

definition asc :: "string \<Rightarrow> pystr" where
  \<comment> \<open>a string constant of Basic Latin characters\<close>
  "asc s = map of_char s"

definition space :: pystr where
  "space = [32]"

definition py_isspace :: "nat \<Rightarrow> bool" where
  \<comment> \<open>the characters \<open>str.isspace\<close>, \<open>str.split()\<close>, \<open>str.strip()\<close> and the pattern \<open>\s\<close> treat as whitespace\<close>
  "py_isspace c \<longleftrightarrow>
     (9 \<le> c \<and> c \<le> 13) \<or> (28 \<le> c \<and> c \<le> 32) \<or> c = 133 \<or> c = 160 \<or> c = 5760 \<or>
     (8192 \<le> c \<and> c \<le> 8202) \<or> c = 8232 \<or> c = 8233 \<or> c = 8239 \<or> c = 8287 \<or> c = 12288"

fun py_split_acc :: "pystr \<Rightarrow> pystr \<Rightarrow> pystr list" where
  "py_split_acc cur [] = (if cur = [] then [] else [cur])"
| "py_split_acc cur (c # cs) =
     (if py_isspace c
      then (if cur = [] then py_split_acc [] cs else cur # py_split_acc [] cs)
      else py_split_acc (cur @ [c]) cs)"

definition py_split :: "pystr \<Rightarrow> pystr list" where
  \<comment> \<open>\<open>text.split()\<close>: the maximal runs of non-whitespace characters\<close>
  "py_split text = py_split_acc [] text"

fun py_join :: "pystr \<Rightarrow> pystr list \<Rightarrow> pystr" where
  "py_join sep [] = []"
| "py_join sep [x] = x"
| "py_join sep (x # y # ys) = x @ sep @ py_join sep (y # ys)"

definition py_lstrip :: "pystr \<Rightarrow> pystr" where
  "py_lstrip s = dropWhile py_isspace s"

definition py_rstrip :: "pystr \<Rightarrow> pystr" where
  "py_rstrip s = rev (dropWhile py_isspace (rev s))"

definition py_strip :: "pystr \<Rightarrow> pystr" where
  "py_strip s = py_rstrip (py_lstrip s)"

definition py_isdigit :: "nat \<Rightarrow> bool" where
  \<comment> \<open>the pattern \<open>\d\<close>, on the digits \<open>0\<close> to \<open>9\<close>\<close>
  "py_isdigit c \<longleftrightarrow> 48 \<le> c \<and> c \<le> 57"

definition py_lower_chr :: "nat \<Rightarrow> nat" where
  \<comment> \<open>\<open>str.lower\<close> on one character: Basic Latin and the Cyrillic capitals\<close>
  "py_lower_chr c =
     (if 65 \<le> c \<and> c \<le> 90 then c + 32
      else if 1040 \<le> c \<and> c \<le> 1071 then c + 32
      else if 1024 \<le> c \<and> c \<le> 1039 then c + 80
      else c)"

definition py_upper_chr :: "nat \<Rightarrow> nat" where
  \<comment> \<open>\<open>str.upper\<close> on one character: Basic Latin and the Cyrillic small letters\<close>
  "py_upper_chr c =
     (if 97 \<le> c \<and> c \<le> 122 then c - 32
      else if 1072 \<le> c \<and> c \<le> 1103 then c - 32
      else if 1104 \<le> c \<and> c \<le> 1119 then c - 80
      else c)"

definition py_isword :: "nat \<Rightarrow> bool" where
  \<comment> \<open>the pattern \<open>\w\<close>: digits, Latin and Cyrillic letters and the underscore\<close>
  "py_isword c \<longleftrightarrow>
     py_isdigit c \<or> (65 \<le> c \<and> c \<le> 90) \<or> (97 \<le> c \<and> c \<le> 122) \<or> c = 95 \<or>
     (1024 \<le> c \<and> c \<le> 1153) \<or> (1162 \<le> c \<and> c \<le> 1327)"

definition py_lower :: "pystr \<Rightarrow> pystr" where
  "py_lower s = map py_lower_chr s"



fun starts_with :: "pystr \<Rightarrow> pystr \<Rightarrow> bool" where
  "starts_with s [] = True"
| "starts_with [] (p # ps) = False"
| "starts_with (c # cs) (p # ps) = (c = p \<and> starts_with cs ps)"

fun py_in :: "pystr \<Rightarrow> pystr \<Rightarrow> bool" where
  \<comment> \<open>\<open>sub in s\<close>\<close>
  "py_in sub [] = (sub = [])"
| "py_in sub (c # cs) = (starts_with (c # cs) sub \<or> py_in sub cs)"




definition replace_chr :: "nat \<Rightarrow> pystr \<Rightarrow> pystr \<Rightarrow> pystr" where
  \<comment> \<open>\<open>s.replace(a, new)\<close> for one character \<open>a\<close>\<close>
  "replace_chr a new s = concat (map (\<lambda>c. if c = a then new else [c]) s)"

definition slice :: "pystr \<Rightarrow> nat \<Rightarrow> nat \<Rightarrow> pystr" where
  \<comment> \<open>\<open>s[a:b]\<close> for \<open>0 \<le> a\<close> and \<open>0 \<le> b\<close>\<close>
  "slice s a b = take (b - a) (drop a s)"

section \<open>Regular expressions\<close>

text \<open>
  The patterns of the source are written as terms of \<open>regex\<close>, one constructor for each
  construct they use. \<open>rmatch\<close> is the backtracking matcher of the \<open>re\<close> module: it returns
  every way the pattern matches at a position, as end position and captured groups, in the
  order the module tries them (a greedy loop takes the longer match first, a lazy one the
  shorter, an alternation its left branch first). The flag \<open>ic\<close> is \<open>re.IGNORECASE\<close>.
\<close>

datatype citem = CChar nat | CRange nat nat | CDigit | CSpace | CNotSpace | CWord

fun citem_has :: "citem \<Rightarrow> nat \<Rightarrow> bool" where
  "citem_has (CChar a) c = (c = a)"
| "citem_has (CRange a b) c = (a \<le> c \<and> c \<le> b)"
| "citem_has CDigit c = py_isdigit c"
| "citem_has CSpace c = py_isspace c"
| "citem_has CNotSpace c = (\<not> py_isspace c)"
| "citem_has CWord c = py_isword c"

definition class_has :: "bool \<Rightarrow> citem list \<Rightarrow> nat \<Rightarrow> bool" where
  "class_has ic items c =
     (list_ex (\<lambda>it. citem_has it c) items \<or>
      (ic \<and> list_ex (\<lambda>it. citem_has it (py_lower_chr c) \<or> citem_has it (py_upper_chr c)) items))"

datatype regex =
    Chr nat
  | Class bool "citem list"
  | Eps
  | Seq regex regex
  | Alt regex regex
  | Star regex
  | StarLazy regex
  | Group nat regex
  | Bol
  | Eol
  | WordB

type_synonym caps = "(nat \<times> nat \<times> nat) list"

definition word_at :: "pystr \<Rightarrow> nat \<Rightarrow> bool" where
  "word_at s i = (i < length s \<and> py_isword (s ! i))"

function rmatch :: "bool \<Rightarrow> regex \<Rightarrow> pystr \<Rightarrow> nat \<Rightarrow> caps \<Rightarrow> (nat \<times> caps) list"
  and rmatch_then :: "bool \<Rightarrow> regex \<Rightarrow> pystr \<Rightarrow> (nat \<times> caps) list \<Rightarrow> (nat \<times> caps) list"
  and rmatch_again :: "bool \<Rightarrow> regex \<Rightarrow> pystr \<Rightarrow> nat \<Rightarrow> (nat \<times> caps) list \<Rightarrow> (nat \<times> caps) list"
where
  "rmatch ic (Chr a) s i cs =
     (if i < length s \<and> (s ! i = a \<or> (ic \<and> py_lower_chr (s ! i) = py_lower_chr a))
      then [(Suc i, cs)] else [])"
| "rmatch ic (Class neg items) s i cs =
     (if i < length s \<and> (class_has ic items (s ! i) \<noteq> neg) then [(Suc i, cs)] else [])"
| "rmatch ic Eps s i cs = [(i, cs)]"
| "rmatch ic (Seq r1 r2) s i cs = rmatch_then ic r2 s (rmatch ic r1 s i cs)"
| "rmatch ic (Alt r1 r2) s i cs = rmatch ic r1 s i cs @ rmatch ic r2 s i cs"
| "rmatch ic (Star r) s i cs = rmatch_again ic (Star r) s i (rmatch ic r s i cs) @ [(i, cs)]"
| "rmatch ic (StarLazy r) s i cs = (i, cs) # rmatch_again ic (StarLazy r) s i (rmatch ic r s i cs)"
| "rmatch ic (Group n r) s i cs = map (\<lambda>(j, c). (j, (n, i, j) # c)) (rmatch ic r s i cs)"
| "rmatch ic Bol s i cs = (if i = 0 then [(i, cs)] else [])"
| "rmatch ic Eol s i cs =
     (if i = length s \<or> (Suc i = length s \<and> s ! i = 10) then [(i, cs)] else [])"
| "rmatch ic WordB s i cs =
     (if (0 < i \<and> word_at s (i - 1)) \<noteq> word_at s i then [(i, cs)] else [])"
| "rmatch_then ic r s [] = []"
| "rmatch_then ic r s ((j, c) # rest) = rmatch ic r s j c @ rmatch_then ic r s rest"
| "rmatch_again ic r s i [] = []"
| "rmatch_again ic r s i ((j, c) # rest) =
     (if i < j \<and> j \<le> length s then rmatch ic r s j c else []) @ rmatch_again ic r s i rest"
  by pat_completeness auto
termination
  by (relation "measures [
        (\<lambda>x. case x of Inl (ic, r, s, i, cs) \<Rightarrow> 2 * size r
                      | Inr (Inl (ic, r, s, xs)) \<Rightarrow> 2 * size r + 1
                      | Inr (Inr (ic, r, s, i, xs)) \<Rightarrow> 2 * size r),
        (\<lambda>x. case x of Inl (ic, r, s, i, cs) \<Rightarrow> length s - i
                      | Inr (Inl (ic, r, s, xs)) \<Rightarrow> 0
                      | Inr (Inr (ic, r, s, i, xs)) \<Rightarrow> length s - i),
        (\<lambda>x. case x of Inl (ic, r, s, i, cs) \<Rightarrow> 1
                      | Inr (Inl (ic, r, s, xs)) \<Rightarrow> 0
                      | Inr (Inr (ic, r, s, i, xs)) \<Rightarrow> 0),
        (\<lambda>x. case x of Inl (ic, r, s, i, cs) \<Rightarrow> 0
                      | Inr (Inl (ic, r, s, xs)) \<Rightarrow> length xs
                      | Inr (Inr (ic, r, s, i, xs)) \<Rightarrow> length xs)]") auto

fun Seqs :: "regex list \<Rightarrow> regex" where
  "Seqs [] = Eps"
| "Seqs [r] = r"
| "Seqs (r # rs) = Seq r (Seqs rs)"


definition Str :: "pystr \<Rightarrow> regex" where
  \<comment> \<open>a literal text\<close>
  "Str w = Seqs (map Chr w)"

definition Opt :: "regex \<Rightarrow> regex" where
  \<comment> \<open>\<open>r?\<close>\<close>
  "Opt r = Alt r Eps"

definition Plus :: "regex \<Rightarrow> regex" where
  \<comment> \<open>\<open>r+\<close>\<close>
  "Plus r = Seq r (Star r)"

definition Dg :: regex where
  \<comment> \<open>\<open>\d\<close>\<close>
  "Dg = Class False [CDigit]"

definition Sp :: regex where
  \<comment> \<open>\<open>\s\<close>\<close>
  "Sp = Class False [CSpace]"

definition any_chr :: regex where
  \<comment> \<open>\<open>[\s\S]\<close>: every character\<close>
  "any_chr = Class False [CSpace, CNotSpace]"

text \<open>
  \<open>re.search\<close>: the first position, from the left, at which the pattern matches, with the
  match the matcher finds first there.
\<close>

function search_from :: "bool \<Rightarrow> regex \<Rightarrow> pystr \<Rightarrow> nat \<Rightarrow> (nat \<times> nat \<times> caps) option" where
  "search_from ic r s i =
     (if length s < i then None
      else (case rmatch ic r s i [] of
              (j, c) # _ \<Rightarrow> Some (i, j, c)
            | [] \<Rightarrow> search_from ic r s (Suc i)))"
  by pat_completeness auto
termination
  by (relation "measure (\<lambda>(ic, r, s, i). Suc (length s) - i)") auto

definition re_search :: "bool \<Rightarrow> regex \<Rightarrow> pystr \<Rightarrow> (nat \<times> nat \<times> caps) option" where
  "re_search ic r s = search_from ic r s 0"

definition group :: "pystr \<Rightarrow> caps \<Rightarrow> nat \<Rightarrow> pystr" where
  \<comment> \<open>\<open>match.group(n)\<close> for a group that took part in the match\<close>
  "group s c n = (case map_of c n of Some (a, b) \<Rightarrow> slice s a b | None \<Rightarrow> [])"

lemma rmatch_bounds:
  "(j, c) \<in> set (rmatch ic r s i cs) \<Longrightarrow> i \<le> j"
  "(j, c) \<in> set (rmatch_then ic r s xs) \<Longrightarrow> \<exists>k c'. (k, c') \<in> set xs \<and> k \<le> j"
  "(j, c) \<in> set (rmatch_again ic r s i xs) \<Longrightarrow> i \<le> j"
proof (induction ic r s i cs and ic r s xs and ic r s i xs arbitrary: j c and j c and j c
    rule: rmatch_rmatch_then_rmatch_again.induct)
  case (4 ic r1 r2 s i cs)
  from "4.IH"(2)[OF "4.prems"[simplified]] obtain k c' where
    k: "(k, c') \<in> set (rmatch ic r1 s i cs)" and kj: "k \<le> j" by blast
  from "4.IH"(1)[OF k] kj show ?case by simp
next
  case (13 ic r s k c' rest)
  from "13.prems" have "(j, c) \<in> set (rmatch ic r s k c') \<or> (j, c) \<in> set (rmatch_then ic r s rest)"
    by simp
  then show ?case
  proof
    assume "(j, c) \<in> set (rmatch ic r s k c')"
    from "13.IH"(1)[OF this] show ?thesis by auto
  next
    assume "(j, c) \<in> set (rmatch_then ic r s rest)"
    from "13.IH"(2)[OF this] show ?thesis by auto
  qed
next
  case (15 ic r s i k c' rest)
  from "15.prems" have "(i < k \<and> k \<le> length s \<and> (j, c) \<in> set (rmatch ic r s k c')) \<or>
      (j, c) \<in> set (rmatch_again ic r s i rest)"
    by (auto split: if_splits)
  then show ?case
  proof
    assume a: "i < k \<and> k \<le> length s \<and> (j, c) \<in> set (rmatch ic r s k c')"
    then have "k \<le> j" using "15.IH"(1) by blast
    with a show ?thesis by simp
  next
    assume "(j, c) \<in> set (rmatch_again ic r s i rest)"
    from "15.IH"(2)[OF this] show ?thesis .
  qed
qed (auto split: if_splits)

lemma search_from_bounds:
  "search_from ic r s i = Some (a, b, c) \<Longrightarrow> i \<le> a \<and> a \<le> b \<and> a \<le> length s"
proof (induction ic r s i rule: search_from.induct)
  case (1 ic r s i)
  show ?case
  proof (cases "length s < i")
    case True
    with "1.prems" show ?thesis by simp
  next
    case False
    show ?thesis
    proof (cases "rmatch ic r s i []")
      case Nil
      with False "1.prems" have "search_from ic r s (Suc i) = Some (a, b, c)" by simp
      from "1.IH"[OF False Nil this] show ?thesis by simp
    next
      case (Cons x xs)
      obtain j c' where x: "x = (j, c')" by (cases x)
      with Cons False "1.prems" have e: "a = i" "b = j" by simp_all
      have "(j, c') \<in> set (rmatch ic r s i [])" using Cons x by simp
      then have "i \<le> j" by (rule rmatch_bounds)
      with e False show ?thesis by simp
    qed
  qed
qed

text \<open>
  \<open>re.findall\<close> and \<open>re.sub\<close> scan for matches that do not overlap; after an empty match
  the scan moves one character on.
\<close>

function find_all :: "bool \<Rightarrow> regex \<Rightarrow> pystr \<Rightarrow> nat \<Rightarrow> (nat \<times> nat \<times> caps) list" where
  "find_all ic r s i =
     (case search_from ic r s i of
        None \<Rightarrow> []
      | Some (a, b, c) \<Rightarrow> (a, b, c) # find_all ic r s (if a < b then b else Suc b))"
  by pat_completeness auto
termination
proof (relation "measure (\<lambda>(ic, r, s, i). Suc (length s) - i)")
  show "wf (measure (\<lambda>(ic, r, s, i). Suc (length s) - i))" by simp
next
  fix ic r s i x2 a y b c
  assume "search_from ic r s i = Some x2" "(a, y) = x2" "(b, c) = y"
  then have "search_from ic r s i = Some (a, b, c)" by simp
  then have "i \<le> a \<and> a \<le> b \<and> a \<le> length s" by (rule search_from_bounds)
  then show "((ic, r, s, if a < b then b else Suc b), ic, r, s, i)
      \<in> measure (\<lambda>(ic, r, s, i). Suc (length s) - i)"
    by auto
qed

fun sub_build :: "pystr \<Rightarrow> pystr \<Rightarrow> nat \<Rightarrow> (nat \<times> nat \<times> caps) list \<Rightarrow> pystr" where
  "sub_build s repl pos [] = drop pos s"
| "sub_build s repl pos ((a, b, c) # ms) = slice s pos a @ repl @ sub_build s repl b ms"

definition re_sub :: "bool \<Rightarrow> regex \<Rightarrow> pystr \<Rightarrow> pystr \<Rightarrow> pystr" where
  \<comment> \<open>\<open>re.sub(pattern, repl, s)\<close>\<close>
  "re_sub ic r repl s = sub_build s repl 0 (find_all ic r s 0)"

definition re_sub1 :: "bool \<Rightarrow> regex \<Rightarrow> pystr \<Rightarrow> pystr \<Rightarrow> pystr" where
  \<comment> \<open>\<open>re.sub(pattern, repl, s, count=1)\<close>\<close>
  "re_sub1 ic r repl s = sub_build s repl 0 (take 1 (find_all ic r s 0))"

definition re_findall0 :: "bool \<Rightarrow> regex \<Rightarrow> pystr \<Rightarrow> pystr list" where
  \<comment> \<open>\<open>re.findall\<close> for a pattern without a group: the matched texts\<close>
  "re_findall0 ic r s = map (\<lambda>(a, b, c). slice s a b) (find_all ic r s 0)"

definition re_findall1 :: "bool \<Rightarrow> regex \<Rightarrow> pystr \<Rightarrow> pystr list" where
  \<comment> \<open>\<open>re.findall\<close> for a pattern with one group: the texts of the group\<close>
  "re_findall1 ic r s = map (\<lambda>(a, b, c). group s c 1) (find_all ic r s 0)"

section \<open>Decoded JSON values\<close>

text \<open>
  The values a decoded JSON document is made of. Numbers are restricted to integers.
  A Python \<open>dict\<close> keeps one value per key, the last one written; as an association list it
  is read from the front, so \<open>JObj\<close> lists the latest binding of a key first.
\<close>

datatype json =
    JNull
  | JBool bool
  | JInt int
  | JStr pystr
  | JArr "json list"
  | JObj "(pystr \<times> json) list"

fun truthy :: "json \<Rightarrow> bool" where
  "truthy JNull = False"
| "truthy (JBool b) = b"
| "truthy (JInt n) = (n \<noteq> 0)"
| "truthy (JStr s) = (s \<noteq> [])"
| "truthy (JArr xs) = (xs \<noteq> [])"
| "truthy (JObj kvs) = (kvs \<noteq> [])"

definition truthy_opt :: "json option \<Rightarrow> bool" where
  \<comment> \<open>Python's truth test of a value that may be \<open>None\<close>\<close>
  "truthy_opt v = (case v of None \<Rightarrow> False | Some j \<Rightarrow> truthy j)"

definition truthy_str :: "pystr option \<Rightarrow> bool" where
  \<comment> \<open>Python's truth test of an \<open>Optional[str]\<close>: neither \<open>None\<close> nor the empty string\<close>
  "truthy_str v = (case v of None \<Rightarrow> False | Some s \<Rightarrow> s \<noteq> [])"

section \<open>The attribute record\<close>

text \<open>
  \<open>ProductInfo\<close> of \<open>bot/ai/text_analyzer.py\<close>. Every field defaults to \<open>None\<close>. The dataclass
  does not check its annotations: the vision parser stores the decoded JSON value of the
  price as it is, and both AI parsers store the decoded \<open>other_features\<close> value, so these
  two fields hold JSON values. The field \<open>size\<close> is named \<open>size_f\<close> here.
\<close>

record ProductInfo =
  name :: "pystr option"
  price :: "json option"
  description :: "pystr option"
  category :: "pystr option"
  color :: "pystr option"
  size_f :: "pystr option"
  other_features :: "json option"

definition ProductInfo_empty :: ProductInfo where
  \<comment> \<open>\<open>ProductInfo()\<close>\<close>
  "ProductInfo_empty =
     \<lparr>name = None, price = None, description = None, category = None, color = None,
      size_f = None, other_features = None\<rparr>"

text \<open>
  The dictionary \<open>extract_product_info_from_text\<close> of \<open>bot/handlers/photo.py\<close> returns: six
  keys, each \<open>None\<close> or a string, and no features.
\<close>

record Extracted =
  e_name :: "pystr option"
  e_price :: "pystr option"
  e_description :: "pystr option"
  e_category :: "pystr option"
  e_color :: "pystr option"
  e_size :: "pystr option"

section \<open>Helpers for AI responses (\<open>bot/utils/helpers.py\<close>)\<close>

text \<open>
  What the source can raise is a value of \<open>error\<close>, and a function that can raise returns
  a sum, the error on the left.
\<close>

datatype error = TypeError | AttributeError | RemoteError

definition bind_err :: "error + 'a \<Rightarrow> ('a \<Rightarrow> error + 'b) \<Rightarrow> error + 'b" where
  "bind_err x f = (case x of Inl e \<Rightarrow> Inl e | Inr v \<Rightarrow> f v)"

definition py_value :: "json \<Rightarrow> json option" where
  \<comment> \<open>a decoded \<open>null\<close> is Python's \<open>None\<close>\<close>
  "py_value j = (if j = JNull then None else Some j)"

definition dict_get :: "(pystr \<times> json) list \<Rightarrow> pystr \<Rightarrow> json option" where
  \<comment> \<open>\<open>data.get(key)\<close>\<close>
  "dict_get d k = (case map_of d k of None \<Rightarrow> None | Some v \<Rightarrow> py_value v)"

definition dict_get_default :: "(pystr \<times> json) list \<Rightarrow> pystr \<Rightarrow> json \<Rightarrow> json option" where
  \<comment> \<open>\<open>data.get(key, default)\<close>\<close>
  "dict_get_default d k dflt = (case map_of d k of None \<Rightarrow> py_value dflt | Some v \<Rightarrow> py_value v)"

definition py_or :: "json option \<Rightarrow> json option \<Rightarrow> json option" where
  \<comment> \<open>\<open>a or b\<close>\<close>
  "py_or a b = (if truthy_opt a then a else b)"

function nat_digits :: "nat \<Rightarrow> pystr" where
  "nat_digits n = (if n < 10 then [48 + n] else nat_digits (n div 10) @ [48 + n mod 10])"
  by pat_completeness auto
termination
  by (relation "measure (\<lambda>n. n)") auto

text \<open>
  \<open>str(value)\<close> of a decoded value. For a list or a dictionary it is the \<open>repr\<close> of the
  elements; the \<open>repr\<close> of a string is given for strings without a quote, a backslash or a
  character that is not printable.
\<close>

fun py_repr :: "json \<Rightarrow> pystr" where
  "py_repr JNull = asc ''None''"
| "py_repr (JBool b) = (if b then asc ''True'' else asc ''False'')"
| "py_repr (JInt n) = (if n < 0 then 45 # nat_digits (nat (- n)) else nat_digits (nat n))"
| "py_repr (JStr s) = [39] @ s @ [39]"
| "py_repr (JArr xs) = [91] @ py_join (asc '', '') (map py_repr xs) @ [93]"
| "py_repr (JObj kvs) =
     [123] @ py_join (asc '', '') (map (\<lambda>(k, v). [39] @ k @ [39] @ asc '': '' @ py_repr v) kvs) @ [125]"

definition py_str :: "json \<Rightarrow> pystr" where
  "py_str j = (case j of JStr s \<Rightarrow> s | _ \<Rightarrow> py_repr j)"

fun find_from :: "nat \<Rightarrow> nat \<Rightarrow> pystr \<Rightarrow> int" where
  "find_from a i [] = - 1"
| "find_from a i (c # cs) = (if c = a then int i else find_from a (Suc i) cs)"

definition py_find :: "nat \<Rightarrow> pystr \<Rightarrow> int" where
  \<comment> \<open>\<open>s.find(a)\<close> for one character\<close>
  "py_find a s = find_from a 0 s"

fun rfind_from :: "nat \<Rightarrow> nat \<Rightarrow> int \<Rightarrow> pystr \<Rightarrow> int" where
  "rfind_from a i found [] = found"
| "rfind_from a i found (c # cs) = rfind_from a (Suc i) (if c = a then int i else found) cs"

definition py_rfind :: "nat \<Rightarrow> pystr \<Rightarrow> int" where
  \<comment> \<open>\<open>s.rfind(a)\<close> for one character\<close>
  "py_rfind a s = rfind_from a 0 (- 1) s"

definition code_block_pattern :: regex where
  \<comment> \<open>three backquotes, \<open>(?:json)?\s*([\s\S]*?)\<close>, three backquotes\<close>
  "code_block_pattern =
     Seqs [Str [96, 96, 96], Opt (Str (asc ''json'')), Star Sp,
           Group 1 (StarLazy any_chr), Str [96, 96, 96]]"

text \<open>
  \<open>json.loads\<close> belongs to the Python library and is a parameter \<open>loads\<close>: \<open>None\<close> when it
  raises \<open>JSONDecodeError\<close>, the decoded value otherwise.
\<close>

fun try_blocks :: "(pystr \<Rightarrow> json option) \<Rightarrow> pystr list \<Rightarrow> json option" where
  "try_blocks loads [] = None"
| "try_blocks loads (m # ms) =
     (case loads (py_strip m) of Some j \<Rightarrow> Some j | None \<Rightarrow> try_blocks loads ms)"

definition extract_json_from_text :: "(pystr \<Rightarrow> json option) \<Rightarrow> pystr \<Rightarrow> json option" where
  "extract_json_from_text loads text =
     (case loads text of
        Some j \<Rightarrow> py_value j
      | None \<Rightarrow>
          (case try_blocks loads (re_findall1 False code_block_pattern text) of
             Some j \<Rightarrow> py_value j
           | None \<Rightarrow>
               (let json_start = py_find 123 text;
                    json_end = py_rfind 125 text + 1
                in if json_start \<noteq> - 1 \<and> json_end > json_start
                   then (case loads (slice text (nat json_start) (nat json_end)) of
                           Some j \<Rightarrow> py_value j
                         | None \<Rightarrow> None)
                   else None)))"

definition ellipsis :: pystr where
  "ellipsis = asc ''...''"

definition slice_to :: "pystr \<Rightarrow> int \<Rightarrow> pystr" where
  \<comment> \<open>\<open>s[:k]\<close>; a negative \<open>k\<close> counts from the end\<close>
  "slice_to s k = (if 0 \<le> k then take (nat k) s else take (length s - nat (- k)) s)"

definition sanitize_text :: "json option \<Rightarrow> int option \<Rightarrow> error + pystr" where
  "sanitize_text text max_length =
     (if \<not> truthy_opt text then Inr []
      else (case text of
              Some (JStr t) \<Rightarrow>
                (let t1 = py_strip (re_sub False (Plus Sp) space t)
                 in Inr (case max_length of
                           None \<Rightarrow> t1
                         | Some m \<Rightarrow>
                             if m \<noteq> 0 \<and> int (length t1) > m
                             then slice_to t1 (m - 3) @ ellipsis else t1))
            | _ \<Rightarrow> Inl TypeError))"

definition rouble :: pystr where
  \<comment> \<open>the rouble sign\<close>
  "rouble = [8381]"

definition rub_cyr :: pystr where
  \<comment> \<open>the three Cyrillic letters of "rub"\<close>
  "rub_cyr = [1088, 1091, 1073]"

definition euro :: pystr where
  "euro = [8364]"

definition not_given_words :: "pystr list" where
  \<comment> \<open>\<open>'null'\<close>, \<open>'none'\<close>, \<open>'n/a'\<close> and the Russian for "not given"\<close>
  "not_given_words =
     [asc ''null'', asc ''none'', asc ''n/a'',
      [1085, 1077, 32, 1091, 1082, 1072, 1079, 1072, 1085, 1072]]"

definition number_pattern :: regex where
  \<comment> \<open>\<open>\d+[\.,]?\d*\<close>\<close>
  "number_pattern = Seqs [Plus Dg, Opt (Class False [CChar 46, CChar 44]), Star Dg]"

definition format_price :: "json option \<Rightarrow> pystr" where
  "format_price price0 =
     (if \<not> truthy_opt price0 then []
      else (let price = py_strip (py_str (the price0)) in
            if price = [] \<or> py_lower price \<in> set not_given_words then []
            else (case re_findall0 False number_pattern price of
                    n0 # _ \<Rightarrow>
                      (let num = replace_chr 44 [46] n0 in
                       if py_in rouble price \<or> py_in rub_cyr (py_lower price) \<or>
                          py_in (asc ''rub'') (py_lower price)
                       then num @ rouble
                       else if py_in (asc ''$'') price \<or> py_in (asc ''usd'') (py_lower price)
                       then asc ''$'' @ num
                       else if py_in euro price \<or> py_in (asc ''eur'') (py_lower price)
                       then euro @ num
                       else num @ rouble)
                  | [] \<Rightarrow> price)))"

section \<open>The text analyzer (\<open>bot/ai/text_analyzer.py\<close>)\<close>

text \<open>
  \<open>_parse_ai_response\<close>. The arguments of \<open>ProductInfo(...)\<close> are evaluated in the order they
  are written; \<open>data.get\<close> of a value that is not a dictionary raises \<open>AttributeError\<close>.
\<close>

definition parse_ai_response :: "(pystr \<Rightarrow> json option) \<Rightarrow> pystr \<Rightarrow> error + ProductInfo" where
  "parse_ai_response loads response =
     (let data = extract_json_from_text loads response in
      if truthy_opt data
      then (case data of
              Some (JObj d) \<Rightarrow>
                bind_err (sanitize_text (dict_get d (asc ''name'')) None) (\<lambda>n.
                bind_err (sanitize_text (dict_get d (asc ''description'')) (Some 500)) (\<lambda>ds.
                bind_err (sanitize_text (dict_get d (asc ''category'')) None) (\<lambda>ca.
                bind_err (sanitize_text (dict_get d (asc ''color'')) None) (\<lambda>co.
                bind_err (sanitize_text (dict_get d (asc ''size'')) None) (\<lambda>sz.
                Inr \<lparr>name = Some n,
                     price = Some (JStr (format_price (dict_get d (asc ''price'')))),
                     description = Some ds, category = Some ca, color = Some co,
                     size_f = Some sz,
                     other_features = dict_get_default d (asc ''other_features'') (JObj [])\<rparr>)))))
            | _ \<Rightarrow> Inl AttributeError)
      else Inr ProductInfo_empty)"





section \<open>The vision analyzer (\<open>bot/ai/vision_analyzer.py\<close>)\<close>

definition parse_vision_response :: "(pystr \<Rightarrow> json option) \<Rightarrow> pystr \<Rightarrow> error + ProductInfo" where
  \<comment> \<open>\<open>_parse_vision_response\<close>\<close>
  "parse_vision_response loads response =
     (let data = extract_json_from_text loads response in
      if truthy_opt data
      then (case data of
              Some (JObj d) \<Rightarrow>
                (let price = py_or (py_or (dict_get d (asc ''price''))
                                          (dict_get d (asc ''estimated_price_range'')))
                                   (dict_get d (asc ''estimated_price''))
                 in
                 bind_err (sanitize_text (py_or (dict_get d (asc ''product_name''))
                                                (dict_get d (asc ''name''))) None) (\<lambda>n.
                 bind_err (sanitize_text (dict_get d (asc ''category'')) None) (\<lambda>ca.
                 bind_err (sanitize_text (dict_get d (asc ''color'')) None) (\<lambda>co.
                 bind_err (sanitize_text (dict_get d (asc ''size'')) None) (\<lambda>sz.
                 bind_err (sanitize_text (dict_get d (asc ''description'')) (Some 500)) (\<lambda>ds.
                 Inr \<lparr>name = Some n,
                      price = (if truthy_opt price then price else None),
                      description = Some ds, category = Some ca, color = Some co,
                      size_f = Some sz,
                      other_features =
                        py_or (dict_get d (asc ''features''))
                              (dict_get_default d (asc ''other_features'') (JObj []))\<rparr>))))))
            | _ \<Rightarrow> Inl AttributeError)
      else Inr ProductInfo_empty)"

definition analyze_product_image ::
  "(pystr \<Rightarrow> json option) \<Rightarrow> (error + pystr) \<Rightarrow> ProductInfo" where
  "analyze_product_image loads ai_outcome =
     (case ai_outcome of
        Inl e \<Rightarrow> ProductInfo_empty
      | Inr ai_response \<Rightarrow>
          (case parse_vision_response loads ai_response of
             Inr product_info \<Rightarrow> product_info
           | Inl e \<Rightarrow> ProductInfo_empty))"

section \<open>The heuristic extractor (\<open>bot/handlers/description.py\<close>)\<close>

























section \<open>The decoder in the examples\<close>




section \<open>Reconciling two records (\<open>bot/handlers/photo.py\<close>)\<close>

definition desc_sep :: pystr where
  \<comment> \<open>the separator \<open>". "\<close>\<close>
  "desc_sep = [46, 32]"

definition not_provided :: pystr where
  \<comment> \<open>the placeholder text of line 364, Russian for "not provided"\<close>
  "not_provided = [1053, 1077, 32, 1087, 1088, 1077, 1076, 1086, 1089, 1090, 1072, 1074, 1083, 1077, 1085, 1086]"

text \<open>
  \<open>process_product_photo\<close>, lines 219 to 230: the record of the photo analysis is updated
  from the record extracted from the caption. Only name, price, description and category
  are looked at.
\<close>

definition merge_caption :: "ProductInfo \<Rightarrow> ProductInfo \<Rightarrow> ProductInfo" where
  "merge_caption product_info caption_info =
     (let p1 = (if truthy_str (name caption_info)
                then product_info\<lparr>name := name caption_info\<rparr> else product_info);
          p2 = (if truthy_opt (price caption_info)
                then p1\<lparr>price := price caption_info\<rparr> else p1);
          p3 = (if truthy_str (description caption_info)
                then (if truthy_str (description p2)
                      then p2\<lparr>description :=
                             Some (the (description p2) @ desc_sep @ the (description caption_info))\<rparr>
                      else p2\<lparr>description := description caption_info\<rparr>)
                else p2);
          p4 = (if truthy_str (category caption_info)
                then p3\<lparr>category := category caption_info\<rparr> else p3)
      in p4)"

text \<open>
  \<open>add_text_to_photo_handler\<close>, lines 357 to 373: the stored dictionary is updated from the
  dictionary extracted from the user's text. A key that is absent and a key that holds
  \<open>None\<close> are both read as absent by \<open>dict.get\<close>, so the stored dictionary is a record of
  optional values.
\<close>

definition merge_user_text :: "ProductInfo \<Rightarrow> Extracted \<Rightarrow> ProductInfo" where
  "merge_user_text product_dict extracted =
     (let d1 = (if truthy_str (e_name extracted)
                then product_dict\<lparr>name := e_name extracted\<rparr> else product_dict);
          d2 = (if truthy_str (e_price extracted)
                then d1\<lparr>price := map_option JStr (e_price extracted)\<rparr> else d1);
          d3 = (if truthy_str (e_description extracted)
                then (let current_desc = description d2 in
                      if truthy_str current_desc \<and> current_desc \<noteq> Some not_provided
                      then d2\<lparr>description :=
                             Some (the current_desc @ desc_sep @ the (e_description extracted))\<rparr>
                      else d2\<lparr>description := e_description extracted\<rparr>)
                else d2);
          d4 = (if truthy_str (e_category extracted)
                then d3\<lparr>category := e_category extracted\<rparr> else d3);
          d5 = (if truthy_str (e_color extracted)
                then d4\<lparr>color := e_color extracted\<rparr> else d4);
          d6 = (if truthy_str (e_size extracted)
                then d5\<lparr>size_f := e_size extracted\<rparr> else d5)
      in d6)"

section \<open>Word wrapping (\<open>_wrap_text\<close> of the three templates)\<close>

text \<open>
  The loop over the words: \<open>lines\<close> and \<open>current_line\<close> are the two lists the source
  mutates; \<open>butlast\<close> is \<open>current_line.pop()\<close> after the \<open>append\<close>.
\<close>

fun wrap_loop :: "int \<Rightarrow> pystr list \<Rightarrow> pystr list \<Rightarrow> pystr list \<Rightarrow> pystr list \<times> pystr list" where
  "wrap_loop max_width [] lines current_line = (lines, current_line)"
| "wrap_loop max_width (word # words) lines current_line =
     (let current_line1 = current_line @ [word] in
      if int (length (py_join space current_line1)) > max_width
      then wrap_loop max_width words (lines @ [py_join space (butlast current_line1)]) [word]
      else wrap_loop max_width words lines current_line1)"

definition wrap_text :: "pystr \<Rightarrow> int \<Rightarrow> pystr list" where
  "wrap_text text max_width =
     (case wrap_loop max_width (py_split text) [] [] of
        (lines, current_line) \<Rightarrow>
          if current_line \<noteq> [] then lines @ [py_join space current_line] else lines)"

section \<open>The templates (\<open>bot/generator/templates\<close>)\<close>

text \<open>
  A card is modelled by the drawing calls that make it, in the order they are made. The
  colors and fonts of a call are named after the configuration fields they come from; which
  font file is loaded does not change the layout. Of the configuration only \<open>width\<close> and
  \<open>height\<close> enter the layout.
\<close>

datatype color = BackgroundColor | TextColor | AccentColor | White

datatype font = TitleFont | BodyFont | PriceFont

datatype 'img draw_op =
    PastePhoto 'img
  | DrawText int int pystr color font
  | Rectangle int int int int color



text \<open>
  What lies outside the program is a parameter: the HTTP request, the base64 decoder and the
  imaging library. Each call returns its result or raises. \<open>process_photo\<close> stands for
  lines 128 to 147 of \<open>minimal.py\<close> (and their copies in the other templates): the new size,
  computed in floating point from the target width, the resizing and the flattening of
  transparency. \<open>scaled_height\<close> is the height of the photo after that.
\<close>

record 'img world =
  http_get :: "pystr \<Rightarrow> error + (int \<times> pystr)"
  b64decode :: "pystr \<Rightarrow> error + pystr"
  image_open :: "pystr \<Rightarrow> error + 'img"
  process_photo :: "int \<Rightarrow> 'img \<Rightarrow> error + 'img"
  scaled_height :: "'img \<Rightarrow> int"

definition re_match :: "bool \<Rightarrow> regex \<Rightarrow> pystr \<Rightarrow> (nat \<times> nat \<times> caps) option" where
  \<comment> \<open>\<open>re.match\<close>: a match at the start of the text\<close>
  "re_match ic r s = (case rmatch ic r s 0 [] of (j, c) # _ \<Rightarrow> Some (0, j, c) | [] \<Rightarrow> None)"

definition data_url_pattern :: regex where
  \<comment> \<open>\<open>data:image/[^;]+;base64,(.+)\<close>\<close>
  "data_url_pattern =
     Seqs [Str (asc ''data:image/''), Plus (Class True [CChar 59]), Str (asc '';base64,''),
           Group 1 (Plus (Class True [CChar 10]))]"

definition download_image_sync :: "'img world \<Rightarrow> pystr \<Rightarrow> 'img option" where
  "download_image_sync w url =
     (if starts_with url (asc ''data:image'')
      then (case re_match False data_url_pattern url of
              Some (a, b, c) \<Rightarrow>
                (case b64decode w (group url c 1) of
                   Inl e \<Rightarrow> None
                 | Inr image_data \<Rightarrow>
                     (case image_open w image_data of Inl e \<Rightarrow> None | Inr img \<Rightarrow> Some img))
            | None \<Rightarrow> None)
      else (case http_get w url of
              Inl e \<Rightarrow> None
            | Inr (status_code, content) \<Rightarrow>
                if status_code = 200
                then (case image_open w content of Inl e \<Rightarrow> None | Inr img \<Rightarrow> Some img)
                else None))"

definition photo_step :: "'img world \<Rightarrow> int \<Rightarrow> pystr option \<Rightarrow> error + 'img option" where
  \<comment> \<open>the photo of the card, scaled, when there is one\<close>
  "photo_step w target_width product_image_url =
     (if truthy_str product_image_url
      then (case download_image_sync w (the product_image_url) of
              None \<Rightarrow> Inr None
            | Some product_img \<Rightarrow>
                (case process_photo w target_width product_img of
                   Inl e \<Rightarrow> Inl e
                 | Inr scaled \<Rightarrow> Inr (Some scaled)))
      else Inr None)"

fun draw_lines ::
  "int \<Rightarrow> int \<Rightarrow> int \<Rightarrow> color \<Rightarrow> font \<Rightarrow> pystr list \<Rightarrow> 'img draw_op list \<times> int" where
  \<comment> \<open>\<open>for line in lines: draw.text((x, y_offset), line, ...); y_offset += step\<close>\<close>
  "draw_lines x y_offset step fill fnt [] = ([], y_offset)"
| "draw_lines x y_offset step fill fnt (line # lines) =
     (case draw_lines x (y_offset + step) step fill fnt lines of
        (ops, y_end) \<Rightarrow> (DrawText x y_offset line fill fnt # ops, y_end))"








section \<open>Properties of word wrapping\<close>

lemma wrap_loop_fits:
  assumes "set words \<subseteq> W"
    and "\<forall>l\<in>set lines. int (length l) \<le> w \<or> (l \<in> W \<and> int (length l) > w)"
    and "int (length (py_join space cur)) \<le> w \<or> (py_join space cur \<in> W \<and> int (length (py_join space cur)) > w)"
    and "wrap_loop w words lines cur = (ls, c)"
  shows "(\<forall>l\<in>set ls. int (length l) \<le> w \<or> (l \<in> W \<and> int (length l) > w)) \<and>
         (int (length (py_join space c)) \<le> w \<or> (py_join space c \<in> W \<and> int (length (py_join space c)) > w))"
  using assms
proof (induction words arbitrary: lines cur)
  case Nil
  then show ?case by simp
next
  case (Cons word words)
  show ?case
  proof (cases "int (length (py_join space (cur @ [word]))) > w")
    case True
    have step: "wrap_loop w words (lines @ [py_join space cur]) [word] = (ls, c)"
      using Cons.prems(4) True by (simp add: Let_def)
    show ?thesis
    proof (rule Cons.IH[OF _ _ _ step])
      show "set words \<subseteq> W" using Cons.prems(1) by simp
      show "\<forall>l\<in>set (lines @ [py_join space cur]). int (length l) \<le> w \<or> (l \<in> W \<and> int (length l) > w)"
        using Cons.prems(2,3) by auto
      show "int (length (py_join space [word])) \<le> w \<or> (py_join space [word] \<in> W \<and> int (length (py_join space [word])) > w)"
        using Cons.prems(1) by auto
    qed
  next
    case False
    have step: "wrap_loop w words lines (cur @ [word]) = (ls, c)"
      using Cons.prems(4) False by (simp add: Let_def)
    show ?thesis
    proof (rule Cons.IH[OF _ _ _ step])
      show "set words \<subseteq> W" using Cons.prems(1) by simp
      show "\<forall>l\<in>set lines. int (length l) \<le> w \<or> (l \<in> W \<and> int (length l) > w)"
        using Cons.prems(2) .
      show "int (length (py_join space (cur @ [word]))) \<le> w \<or> (py_join space (cur @ [word]) \<in> W \<and> int (length (py_join space (cur @ [word]))) > w)"
        using False by simp
    qed
  qed
qed

lemma wrap_loop_prefix: "\<exists>rest. fst (wrap_loop w words lines cur) = lines @ rest"
proof (induction words arbitrary: lines cur)
  case Nil
  show ?case by simp
next
  case (Cons word words)
  show ?case
  proof (cases "int (length (py_join space (cur @ [word]))) > w")
    case True
    obtain rest where "fst (wrap_loop w words (lines @ [py_join space cur]) [word]) = (lines @ [py_join space cur]) @ rest"
      using Cons.IH by blast
    then show ?thesis using True by (simp add: Let_def)
  next
    case False
    then show ?thesis using Cons.IH[of lines "cur @ [word]"] by (simp add: Let_def)
  qed
qed

lemma wrap_loop_long_word:
  assumes "int (length word) > w"
  shows "\<exists>rest. (case wrap_loop w words lines [word] of (ls, c) \<Rightarrow> if c \<noteq> [] then ls @ [py_join space c] else ls) = lines @ word # rest"
proof (cases words)
  case Nil
  then show ?thesis by simp
next
  case (Cons x xs)
  obtain rest where r: "fst (wrap_loop w xs (lines @ [word]) [x]) = (lines @ [word]) @ rest"
    using wrap_loop_prefix by blast
  have "wrap_loop w words lines [word] = wrap_loop w xs (lines @ [word]) [x]"
    using assms Cons by (simp add: Let_def)
  then show ?thesis using r by (cases "wrap_loop w xs (lines @ [word]) [x]") auto
qed

text \<open>
  Claim C10. A character budget is a count of characters, so \<open>max_width\<close> is not negative.
  Every line \<open>_wrap_text\<close> returns is at most \<open>max_width\<close> characters long, or it is one
  of the words of the text (as \<open>text.split()\<close> gives them) and that word alone is longer
  than \<open>max_width\<close>: a word over the budget is a line of its own and is never split. When
  the first word of the text is longer than \<open>max_width\<close>, the result starts with an empty
  line, followed by the line of that word.
\<close>

theorem wrap_text_lines:
  assumes "0 \<le> max_width"
  shows "(\<forall>line \<in> set (wrap_text text max_width).
            int (length line) \<le> max_width \<or>
            (line \<in> set (py_split text) \<and> int (length line) > max_width)) \<and>
         (\<forall>word words. py_split text = word # words \<and> int (length word) > max_width \<longrightarrow>
            (\<exists>rest. wrap_text text max_width = [] # word # rest))"
proof
  obtain ls c where lc: "wrap_loop max_width (py_split text) [] [] = (ls, c)"
    by (cases "wrap_loop max_width (py_split text) [] []") auto
  have "(\<forall>l\<in>set ls. int (length l) \<le> max_width \<or> (l \<in> set (py_split text) \<and> int (length l) > max_width)) \<and>
         (int (length (py_join space c)) \<le> max_width \<or> (py_join space c \<in> set (py_split text) \<and> int (length (py_join space c)) > max_width))"
    by (rule wrap_loop_fits[OF _ _ _ lc]) (use assms in auto)
  then show "\<forall>line \<in> set (wrap_text text max_width).
            int (length line) \<le> max_width \<or>
            (line \<in> set (py_split text) \<and> int (length line) > max_width)"
    using lc by (auto simp: wrap_text_def)
next
  show "\<forall>word words. py_split text = word # words \<and> int (length word) > max_width \<longrightarrow>
            (\<exists>rest. wrap_text text max_width = [] # word # rest)"
  proof (intro allI impI)
    fix word words
    assume a: "py_split text = word # words \<and> int (length word) > max_width"
    then have "wrap_loop max_width (py_split text) [] [] = wrap_loop max_width words [[]] [word]"
      by (simp add: Let_def)
    moreover obtain rest where "(case wrap_loop max_width words [[]] [word] of (ls, c) \<Rightarrow> if c \<noteq> [] then ls @ [py_join space c] else ls) = [[]] @ word # rest"
      using wrap_loop_long_word a by blast
    ultimately show "\<exists>rest. wrap_text text max_width = [] # word # rest"
      by (auto simp: wrap_text_def)
  qed
qed


theorem wrap_text_lines_witness:
  "(0::int) \<le> 3 \<and> py_split [97, 98, 99, 100, 32, 101] = [[97, 98, 99, 100], [101]] \<and>
   int (length [97, 98, 99, 100 :: nat]) > 3 \<and>
   (\<exists>rest. wrap_text [97, 98, 99, 100, 32, 101] 3 = [] # [97, 98, 99, 100] # rest)"
  using wrap_text_lines[of 3 "[97, 98, 99, 100, 32, 101]"]
  by (simp add: py_split_def py_isspace_def)

section \<open>Properties of the merges\<close>

lemma merge_caption_name:
  "name (merge_caption A B) = (if truthy_str (name B) then name B else name A)"
  by (simp add: merge_caption_def Let_def)

lemma merge_caption_price:
  "price (merge_caption A B) = (if truthy_opt (price B) then price B else price A)"
  by (simp add: merge_caption_def Let_def)

lemma merge_caption_description:
  "description (merge_caption A B) =
     (if truthy_str (description B)
      then (if truthy_str (description A)
            then Some (the (description A) @ desc_sep @ the (description B))
            else description B)
      else description A)"
  by (simp add: merge_caption_def Let_def)

lemma merge_caption_category:
  "category (merge_caption A B) = (if truthy_str (category B) then category B else category A)"
  by (simp add: merge_caption_def Let_def)

lemma merge_caption_rest:
  "color (merge_caption A B) = color A"
  "size_f (merge_caption A B) = size_f A"
  "other_features (merge_caption A B) = other_features A"
  by (simp_all add: merge_caption_def Let_def)

lemma merge_user_text_name:
  "name (merge_user_text D E) = (if truthy_str (e_name E) then e_name E else name D)"
  by (simp add: merge_user_text_def Let_def)

lemma merge_user_text_price:
  "price (merge_user_text D E) = (if truthy_str (e_price E) then map_option JStr (e_price E) else price D)"
  by (simp add: merge_user_text_def Let_def)

lemma merge_user_text_description:
  "description (merge_user_text D E) =
     (if truthy_str (e_description E)
      then (if truthy_str (description D) \<and> description D \<noteq> Some not_provided
            then Some (the (description D) @ desc_sep @ the (e_description E))
            else e_description E)
      else description D)"
  by (simp add: merge_user_text_def Let_def)

lemma merge_user_text_category:
  "category (merge_user_text D E) = (if truthy_str (e_category E) then e_category E else category D)"
  by (simp add: merge_user_text_def Let_def)

lemma merge_user_text_color:
  "color (merge_user_text D E) = (if truthy_str (e_color E) then e_color E else color D)"
  by (simp add: merge_user_text_def Let_def)

lemma merge_user_text_size:
  "size_f (merge_user_text D E) = (if truthy_str (e_size E) then e_size E else size_f D)"
  by (simp add: merge_user_text_def Let_def)

lemma merge_user_text_features:
  "other_features (merge_user_text D E) = other_features D"
  by (simp add: merge_user_text_def Let_def)

lemma truthy_str_concat: "truthy_str (Some (a @ desc_sep @ b))"
  by (simp add: truthy_str_def desc_sep_def)

lemma truthy_JStr: "truthy_opt (map_option JStr v) = truthy_str v"
  by (cases v) (simp_all add: truthy_opt_def truthy_str_def)

text \<open>
  Claim C3, as the code has it. A value counts as present when it passes Python's truth
  test (neither \<open>None\<close> nor empty), which is what both merges test. In the caption merge,
  name, price, description and category are present in the result whenever they are present
  on either side, and a side-B value that is absent leaves the side-A value as it was; color,
  size and features are taken from side A alone. In the merge of the user's text the same
  holds for all six fields of the extracted dictionary, and the features stay those of the
  stored record.
\<close>

theorem merge_fallback:
  "(truthy_str (name A) \<or> truthy_str (name B) \<longrightarrow> truthy_str (name (merge_caption A B))) \<and>
   (truthy_opt (price A) \<or> truthy_opt (price B) \<longrightarrow> truthy_opt (price (merge_caption A B))) \<and>
   (truthy_str (description A) \<or> truthy_str (description B) \<longrightarrow>
      truthy_str (description (merge_caption A B))) \<and>
   (truthy_str (category A) \<or> truthy_str (category B) \<longrightarrow>
      truthy_str (category (merge_caption A B))) \<and>
   (\<not> truthy_str (name B) \<longrightarrow> name (merge_caption A B) = name A) \<and>
   (\<not> truthy_opt (price B) \<longrightarrow> price (merge_caption A B) = price A) \<and>
   (\<not> truthy_str (description B) \<longrightarrow> description (merge_caption A B) = description A) \<and>
   (\<not> truthy_str (category B) \<longrightarrow> category (merge_caption A B) = category A) \<and>
   color (merge_caption A B) = color A \<and>
   size_f (merge_caption A B) = size_f A \<and>
   other_features (merge_caption A B) = other_features A \<and>
   (truthy_str (name D) \<or> truthy_str (e_name E) \<longrightarrow> truthy_str (name (merge_user_text D E))) \<and>
   (truthy_opt (price D) \<or> truthy_str (e_price E) \<longrightarrow> truthy_opt (price (merge_user_text D E))) \<and>
   (truthy_str (description D) \<or> truthy_str (e_description E) \<longrightarrow>
      truthy_str (description (merge_user_text D E))) \<and>
   (truthy_str (category D) \<or> truthy_str (e_category E) \<longrightarrow>
      truthy_str (category (merge_user_text D E))) \<and>
   (truthy_str (color D) \<or> truthy_str (e_color E) \<longrightarrow> truthy_str (color (merge_user_text D E))) \<and>
   (truthy_str (size_f D) \<or> truthy_str (e_size E) \<longrightarrow> truthy_str (size_f (merge_user_text D E))) \<and>
   (\<not> truthy_str (e_name E) \<longrightarrow> name (merge_user_text D E) = name D) \<and>
   (\<not> truthy_str (e_price E) \<longrightarrow> price (merge_user_text D E) = price D) \<and>
   (\<not> truthy_str (e_description E) \<longrightarrow> description (merge_user_text D E) = description D) \<and>
   (\<not> truthy_str (e_category E) \<longrightarrow> category (merge_user_text D E) = category D) \<and>
   (\<not> truthy_str (e_color E) \<longrightarrow> color (merge_user_text D E) = color D) \<and>
   (\<not> truthy_str (e_size E) \<longrightarrow> size_f (merge_user_text D E) = size_f D) \<and>
   other_features (merge_user_text D E) = other_features D"
  by (simp add: merge_caption_name merge_caption_price merge_caption_description
      merge_caption_category merge_caption_rest merge_user_text_name merge_user_text_price
      merge_user_text_description merge_user_text_category merge_user_text_color
      merge_user_text_size merge_user_text_features truthy_str_concat truthy_JStr)

theorem merge_fallback_witness:
  "truthy_str (name (merge_caption (ProductInfo_empty\<lparr>name := Some [97]\<rparr>)
                       (ProductInfo_empty\<lparr>category := Some [98]\<rparr>))) \<and>
   truthy_str (category (merge_caption (ProductInfo_empty\<lparr>name := Some [97]\<rparr>)
                       (ProductInfo_empty\<lparr>category := Some [98]\<rparr>))) \<and>
   truthy_str (color (merge_user_text (ProductInfo_empty\<lparr>name := Some [97]\<rparr>)
      \<lparr>e_name = None, e_price = None, e_description = None,
       e_category = None, e_color = Some [99], e_size = None\<rparr>)) \<and>
   name (merge_user_text (ProductInfo_empty\<lparr>name := Some [97]\<rparr>)
      \<lparr>e_name = None, e_price = None, e_description = None,
       e_category = None, e_color = Some [99], e_size = None\<rparr>) = Some [97]"
  using merge_fallback[of "ProductInfo_empty\<lparr>name := Some [97]\<rparr>"
      "ProductInfo_empty\<lparr>category := Some [98]\<rparr>"
      "ProductInfo_empty\<lparr>name := Some [97]\<rparr>"
      "\<lparr>e_name = None, e_price = None, e_description = None,
       e_category = None, e_color = Some [99], e_size = None\<rparr>"]
  by (simp add: ProductInfo_empty_def truthy_str_def truthy_opt_def)

text \<open>
  The photo analysis found nothing and the caption analysis returned features: the merged
  record has no features, although side B has them.
\<close>

theorem merge_fallback_counterexample:
  "other_features (ProductInfo_empty\<lparr>other_features := Some (JObj [([1094, 1074, 1077, 1090], JStr [1089, 1080, 1085, 1080, 1081])])\<rparr>) \<noteq> None \<and>
   other_features (merge_caption ProductInfo_empty
      (ProductInfo_empty\<lparr>other_features := Some (JObj [([1094, 1074, 1077, 1090], JStr [1089, 1080, 1085, 1080, 1081])])\<rparr>)) = None"
  by (simp add: merge_caption_def ProductInfo_empty_def truthy_str_def truthy_opt_def Let_def)

text \<open>
  Claim C8, as the code has it. When both descriptions are present (not \<open>None\<close> and not
  empty), the caption merge stores the first, the separator \<open>". "\<close> and the second. The
  merge of the user's text does the same unless the stored description is the placeholder
  \<open>not_provided\<close>, which it replaces.
\<close>

theorem merge_description_concat:
  "(description A = Some a \<and> a \<noteq> [] \<and> description B = Some b \<and> b \<noteq> [] \<longrightarrow>
      description (merge_caption A B) = Some (a @ desc_sep @ b)) \<and>
   (description D = Some a \<and> a \<noteq> [] \<and> a \<noteq> not_provided \<and> e_description E = Some b \<and> b \<noteq> [] \<longrightarrow>
      description (merge_user_text D E) = Some (a @ desc_sep @ b))"
  by (simp add: merge_caption_description merge_user_text_description truthy_str_def)

text \<open>
  The stored description is the placeholder and the user's text yields the description
  of five letters: the result is that description alone.
\<close>

theorem merge_description_concat_counterexample:
  "description (merge_user_text (ProductInfo_empty\<lparr>description := Some not_provided\<rparr>)
      \<lparr>e_name = None, e_price = None, e_description = Some [1085, 1086, 1074, 1099, 1077],
       e_category = None, e_color = None, e_size = None\<rparr>)
   = Some [1085, 1086, 1074, 1099, 1077] \<and>
   Some [1085, 1086, 1074, 1099, 1077] \<noteq> Some (not_provided @ desc_sep @ [1085, 1086, 1074, 1099, 1077])"
  by (simp add: merge_user_text_def ProductInfo_empty_def truthy_str_def Let_def not_provided_def desc_sep_def)

theorem merge_description_concat_witness:
  "description (merge_caption (ProductInfo_empty\<lparr>description := Some [97]\<rparr>)
                 (ProductInfo_empty\<lparr>description := Some [98]\<rparr>)) = Some [97, 46, 32, 98] \<and>
   description (merge_user_text (ProductInfo_empty\<lparr>description := Some [97]\<rparr>)
      \<lparr>e_name = None, e_price = None, e_description = Some [98],
       e_category = None, e_color = None, e_size = None\<rparr>) = Some [97, 46, 32, 98]"
  using merge_description_concat[of "ProductInfo_empty\<lparr>description := Some [97]\<rparr>" "[97]"
      "ProductInfo_empty\<lparr>description := Some [98]\<rparr>" "[98]"
      "ProductInfo_empty\<lparr>description := Some [97]\<rparr>"
      "\<lparr>e_name = None, e_price = None, e_description = Some [98],
       e_category = None, e_color = None, e_size = None\<rparr>"]
  by (simp add: not_provided_def desc_sep_def)

section \<open>Evaluation of the matcher on given texts\<close>

lemmas regex_eval =
  Str_def Opt_def Plus_def Dg_def Sp_def any_chr_def class_has_def py_isdigit_def py_isspace_def
  py_isword_def py_lower_chr_def py_upper_chr_def word_at_def re_search_def re_sub_def
  re_sub1_def re_findall0_def re_findall1_def group_def slice_def asc_def

section \<open>Properties of the AI response parsers\<close>

lemma sanitize_text_cap:
  assumes "sanitize_text v (Some 500) = Inr d"
  shows "length d \<le> 500"
proof (cases "truthy_opt v")
  case False
  with assms show ?thesis by (simp add: sanitize_text_def)
next
  case True
  then obtain j where v: "v = Some j" by (cases v) (simp_all add: truthy_opt_def)
  show ?thesis
  proof (cases j)
    case (JStr t)
    define t1 where "t1 = py_strip (re_sub False (Plus Sp) space t)"
    have d: "d = (if int (length t1) > 500 then slice_to t1 497 @ ellipsis else t1)"
      using assms True v JStr by (auto simp: sanitize_text_def t1_def Let_def)
    show ?thesis
    proof (cases "int (length t1) > 500")
      case True
      then have "d = take 497 t1 @ ellipsis" using d by (simp add: slice_to_def)
      then show ?thesis by (simp add: ellipsis_def asc_def)
    next
      case False
      then show ?thesis using d by simp
    qed
  qed (use assms True v in \<open>simp_all add: sanitize_text_def\<close>)
qed

lemma sanitize_text_long:
  assumes "t \<noteq> []" "length (py_strip (re_sub False (Plus Sp) space t)) > 500"
  shows "sanitize_text (Some (JStr t)) (Some 500) =
           Inr (take 497 (py_strip (re_sub False (Plus Sp) space t)) @ ellipsis)"
  using assms by (simp add: sanitize_text_def truthy_opt_def slice_to_def Let_def)

lemma parse_ai_response_description:
  assumes "parse_ai_response loads response = Inr info" "description info = Some d"
  shows "length d \<le> 500"
proof (cases "truthy_opt (extract_json_from_text loads response)")
  case False
  with assms show ?thesis by (auto simp: parse_ai_response_def ProductInfo_empty_def)
next
  case True
  then obtain j where j: "extract_json_from_text loads response = Some j"
    by (cases "extract_json_from_text loads response") (simp_all add: truthy_opt_def)
  show ?thesis
  proof (cases j)
    case (JObj kvs)
    from assms True j JObj obtain ds where
      "sanitize_text (dict_get kvs (asc ''description'')) (Some 500) = Inr ds" "description info = Some ds"
      by (auto simp: parse_ai_response_def bind_err_def split: sum.splits)
    with assms(2) sanitize_text_cap show ?thesis by auto
  qed (use assms True j in \<open>simp_all add: parse_ai_response_def\<close>)
qed

lemma parse_vision_response_description:
  assumes "parse_vision_response loads response = Inr info" "description info = Some d"
  shows "length d \<le> 500"
proof (cases "truthy_opt (extract_json_from_text loads response)")
  case False
  with assms show ?thesis by (auto simp: parse_vision_response_def ProductInfo_empty_def)
next
  case True
  then obtain j where j: "extract_json_from_text loads response = Some j"
    by (cases "extract_json_from_text loads response") (simp_all add: truthy_opt_def)
  show ?thesis
  proof (cases j)
    case (JObj kvs)
    from assms True j JObj obtain ds where
      "sanitize_text (dict_get kvs (asc ''description'')) (Some 500) = Inr ds" "description info = Some ds"
      by (auto simp: parse_vision_response_def bind_err_def Let_def split: sum.splits)
    with assms(2) sanitize_text_cap show ?thesis by auto
  qed (use assms True j in \<open>simp_all add: parse_vision_response_def\<close>)
qed

text \<open>
  Claim C2, as the code has it. The description of a record that the text parser or the
  vision parser returns is at most 500 characters long. A description whose text, after
  whitespace is collapsed and stripped, is longer than 500 characters is cut to its first
  497 characters followed by three points. Nothing else caps a description: the two merges
  and the heuristic extractors store what they build.
\<close>

theorem description_cap:
  "(parse_ai_response loads response = Inr info \<and> description info = Some d \<longrightarrow> length d \<le> 500) \<and>
   (parse_vision_response loads response = Inr info \<and> description info = Some d \<longrightarrow> length d \<le> 500) \<and>
   (t \<noteq> [] \<and> length (py_strip (re_sub False (Plus Sp) space t)) > 500 \<longrightarrow>
      sanitize_text (Some (JStr t)) (Some 500) =
        Inr (take 497 (py_strip (re_sub False (Plus Sp) space t)) @ ellipsis))"
  using parse_ai_response_description parse_vision_response_description sanitize_text_long
  by blast

theorem description_cap_witness:
  "parse_ai_response (\<lambda>s. Some (JObj [(asc ''description'', JStr (asc ''a  b''))])) [] =
     Inr (ProductInfo_empty\<lparr>name := Some [], price := Some (JStr []), description := Some (asc ''a b''),
            category := Some [], color := Some [], size_f := Some [], other_features := Some (JObj [])\<rparr>) \<and>
   length (asc ''a b'') \<le> 500"
proof -
  have e: "parse_ai_response (\<lambda>s. Some (JObj [(asc ''description'', JStr (asc ''a  b''))])) [] =
     Inr (ProductInfo_empty\<lparr>name := Some [], price := Some (JStr []), description := Some (asc ''a b''),
            category := Some [], color := Some [], size_f := Some [], other_features := Some (JObj [])\<rparr>)"
    by (simp add: parse_ai_response_def extract_json_from_text_def py_value_def truthy_opt_def
        bind_err_def sanitize_text_def dict_get_def dict_get_default_def format_price_def
        ProductInfo_empty_def py_strip_def py_lstrip_def py_rstrip_def space_def regex_eval)
  from description_cap[of "\<lambda>s. Some (JObj [(asc ''description'', JStr (asc ''a  b''))])" "[]"
      "ProductInfo_empty\<lparr>name := Some [], price := Some (JStr []), description := Some (asc ''a b''),
            category := Some [], color := Some [], size_f := Some [], other_features := Some (JObj [])\<rparr>"
      "asc ''a b''"] e
  show ?thesis by simp
qed

text \<open>
  Two descriptions of 300 characters each, both within the cap, are merged into one of 602
  characters.
\<close>

theorem description_cap_counterexample:
  "description (merge_caption (ProductInfo_empty\<lparr>description := Some (replicate 300 97)\<rparr>)
                  (ProductInfo_empty\<lparr>description := Some (replicate 300 98)\<rparr>))
     = Some (replicate 300 97 @ [46, 32] @ replicate 300 98) \<and>
   length (replicate 300 (97::nat) @ [46, 32] @ replicate 300 98) = 602"
  by (simp add: merge_caption_def ProductInfo_empty_def truthy_str_def truthy_opt_def Let_def desc_sep_def)

section \<open>Properties of the text analyzer\<close>








section \<open>Properties of the heuristic extractor\<close>



















section \<open>Properties of the stored price\<close>













section \<open>Properties of the templates\<close>

lemma draw_lines_closed:
  "(draw_lines x y step fill fnt ls :: 'img draw_op list \<times> int) =
     (map (\<lambda>i. DrawText x (y + step * int i) (ls ! i) fill fnt) [0..<length ls],
      y + step * int (length ls))"
proof (induction ls arbitrary: y)
  case Nil
  show ?case by simp
next
  case (Cons l ls)
  have "(draw_lines x y step fill fnt (l # ls) :: 'img draw_op list \<times> int) =
        (DrawText x y l fill fnt #
         map (\<lambda>i. DrawText x (y + step + step * int i) (ls ! i) fill fnt) [0..<length ls],
         y + step + step * int (length ls))"
    by (simp add: Cons.IH[of "y + step"])
  also have "\<dots> =
        (map (\<lambda>i. DrawText x (y + step * int i) ((l # ls) ! i) fill fnt) [0..<length (l # ls)],
         y + step * int (length (l # ls)))"
    by (simp add: upt_conv_Cons map_Suc_upt[symmetric] algebra_simps del: upt_Suc)
  finally show ?case .
qed

lemma draw_lines_text_only:
  "PastePhoto img \<notin> set (fst (draw_lines x y step fill fnt ls))"
  by (auto simp: draw_lines_closed)


lemma length_take2: "int (length (take 2 xs)) = int (min 2 (length xs))"
  by simp











lemma photo_step_absent:
  "\<not> truthy_str url \<Longrightarrow> photo_step w tw url = Inr None"
  "download_image_sync w u = None \<Longrightarrow> photo_step w tw (Some u) = Inr None"
  by (simp_all add: photo_step_def)







section \<open>Properties of the JSON extraction\<close>




























end
